theory Spec2Isabelle
  imports Complex_Main
begin

section \<open>Shared data model\<close>

text \<open>
  A JavaScript string is a sequence of UTF-16 code units; \<open>length\<close> counts code units,
  as \<open>String.prototype.length\<close> does.  An embedding vector is a list of numbers.
\<close>

type_synonym jsstring = "nat list"

type_synonym vector = "real list"

definition js :: "string \<Rightarrow> jsstring" where
  "js s = map of_char s"

datatype error = ProviderError string | StoreError string

section \<open>Embedding cache and retry wrapper (EmbeddingManager)\<close>

subsection \<open>Cache key: \<open>Buffer.from(text).toString('base64').substring(0, 32)\<close>\<close>

text \<open>
  \<open>Buffer.from(text)\<close> encodes the string as UTF-8: a surrogate pair becomes one
  four-byte sequence, a lone surrogate becomes the replacement character EF BF BD.
\<close>

fun utf8 :: "jsstring \<Rightarrow> nat list" where
  "utf8 [] = []"
| "utf8 (u # rest) =
     (if u < 128 then u # utf8 rest
      else if u < 2048 then (192 + u div 64) # (128 + u mod 64) # utf8 rest
      else if 55296 \<le> u \<and> u < 56320 then
        (case rest of
           [] \<Rightarrow> [239, 191, 189]
         | l # rest' \<Rightarrow>
             if 56320 \<le> l \<and> l < 57344 then
               (let cp = 65536 + (u - 55296) * 1024 + (l - 56320)
                in [240 + cp div 262144, 128 + (cp div 4096) mod 64,
                    128 + (cp div 64) mod 64, 128 + cp mod 64] @ utf8 rest')
             else [239, 191, 189] @ utf8 rest)
      else if 56320 \<le> u \<and> u < 57344 then [239, 191, 189] @ utf8 rest
      else [224 + u div 4096, 128 + (u div 64) mod 64, 128 + u mod 64] @ utf8 rest)"

definition base64_alphabet :: string where
  "base64_alphabet = ''ABCDEFGHIJKLMNOPQRSTUVWXYZabcdefghijklmnopqrstuvwxyz0123456789+/''"

definition b64 :: "nat \<Rightarrow> char" where
  "b64 n = base64_alphabet ! (n mod 64)"

fun base64 :: "nat list \<Rightarrow> string" where
  "base64 [] = []"
| "base64 [a] = [b64 (a div 4), b64 ((a mod 4) * 16), CHR ''='', CHR ''='']"
| "base64 [a, b] =
     [b64 (a div 4), b64 ((a mod 4) * 16 + b div 16), b64 ((b mod 16) * 4), CHR ''='']"
| "base64 (a # b # c # rest) =
     [b64 (a div 4), b64 ((a mod 4) * 16 + b div 16),
      b64 ((b mod 16) * 4 + c div 64), b64 (c mod 64)] @ base64 rest"

definition generateCacheKey :: "jsstring \<Rightarrow> string" where
  "generateCacheKey t = ''embedding:'' @ take 32 (base64 (utf8 t))"

subsection \<open>State of the manager and of its collaborators\<close>

text \<open>
  A cache entry holds what \<open>setCache\<close> stores.  The stored embedding is \<open>None\<close> when the
  value written was \<open>undefined\<close> (a provider answer shorter than the batch).
\<close>

record cache_entry =
  embedding :: "vector option"
  timestamp :: int
  ttl :: int

text \<open>
  The state threaded through the manager: the cache object, the clock read by
  \<open>Date.now()\<close> (advanced by \<open>delay\<close>), and the log of the calls made to the embedding
  provider (\<open>embeddingModel.embedQuery\<close> and \<open>embeddingModel.embedDocuments\<close>).
\<close>

record em_state =
  cache :: "string \<rightharpoonup> cache_entry"
  now :: int
  queryLog :: "jsstring list"
  docLog :: "jsstring list list"

text \<open>
  The embedding provider is an external collaborator: its answer may depend on the
  number of calls it has received before, and it may reject.
\<close>

record provider =
  embedQueryM :: "nat \<Rightarrow> jsstring \<Rightarrow> error + vector"
  embedDocumentsM :: "nat \<Rightarrow> jsstring list \<Rightarrow> error + vector list"

record em_config =
  retryAttempts :: "int option"
  retryDelay :: "int option"

definition cacheTTL :: int where
  "cacheTTL = 24 * 60 * 60 * 1000"

text \<open>\<open>x || d\<close> on an optional number: \<open>undefined\<close> and \<open>0\<close> are falsy.\<close>

definition or_default :: "int option \<Rightarrow> int \<Rightarrow> int" where
  "or_default x d = (case x of None \<Rightarrow> d | Some v \<Rightarrow> if v = 0 then d else v)"

definition getFromCache :: "string \<Rightarrow> em_state \<Rightarrow> vector option \<times> em_state" where
  "getFromCache key s =
     (case cache s key of
        None \<Rightarrow> (None, s)
      | Some cached \<Rightarrow>
          if now s - timestamp cached < ttl cached then (embedding cached, s)
          else (None, s\<lparr>cache := (cache s)(key := None)\<rparr>))"

definition setCache :: "string \<Rightarrow> vector option \<Rightarrow> em_state \<Rightarrow> em_state" where
  "setCache key emb s =
     s\<lparr>cache := (cache s)(key \<mapsto> \<lparr>embedding = emb, timestamp = now s, ttl = cacheTTL\<rparr>)\<rparr>"

definition delay :: "int \<Rightarrow> em_state \<Rightarrow> em_state" where
  "delay ms s = s\<lparr>now := now s + ms\<rparr>"

subsection \<open>embedWithRetry and embedQuery\<close>

function embedWithRetry ::
  "em_config \<Rightarrow> provider \<Rightarrow> jsstring \<Rightarrow> int \<Rightarrow> em_state \<Rightarrow> (error + vector) \<times> em_state"
where
  "embedWithRetry cfg p t attempt s =
     (case embedQueryM p (length (queryLog s)) t of
        Inr v \<Rightarrow> (Inr v, s\<lparr>queryLog := queryLog s @ [t]\<rparr>)
      | Inl e \<Rightarrow>
          if attempt < or_default (retryAttempts cfg) 3 then
            embedWithRetry cfg p t (attempt + 1)
              (delay (or_default (retryDelay cfg) 1000) (s\<lparr>queryLog := queryLog s @ [t]\<rparr>))
          else (Inl e, s\<lparr>queryLog := queryLog s @ [t]\<rparr>))"
  by pat_completeness auto
termination
  by (relation "measure (\<lambda>(cfg, p, t, attempt, s). nat (or_default (retryAttempts cfg) 3 - attempt))")
     auto

definition embedQuery ::
  "em_config \<Rightarrow> provider \<Rightarrow> jsstring \<Rightarrow> em_state \<Rightarrow> (error + vector) \<times> em_state"
where
  "embedQuery cfg p t s =
     (let cacheKey = generateCacheKey t;
          (cached, s1) = getFromCache cacheKey s
      in case cached of
           Some v \<Rightarrow> (Inr v, s1)
         | None \<Rightarrow>
             (case embedWithRetry cfg p t 1 s1 of
                (Inl e, s2) \<Rightarrow> (Inl e, s2)
              | (Inr v, s2) \<Rightarrow> (Inr v, setCache cacheKey (Some v) s2)))"

subsection \<open>embedDocuments\<close>








subsection \<open>Fixtures: a configuration, an empty cache and two providers\<close>

definition demo_cfg :: em_config where
  "demo_cfg = \<lparr>retryAttempts = Some 3, retryDelay = Some 1000\<rparr>"

definition demo_state :: em_state where
  "demo_state = \<lparr>cache = Map.empty, now = 0, queryLog = [], docLog = []\<rparr>"

definition flaky_provider :: provider where
  "flaky_provider =
     \<lparr>embedQueryM = (\<lambda>n t. if n < 2 then Inl (ProviderError ''unavailable'') else Inr [1, 2]),
      embedDocumentsM = (\<lambda>n ts. Inr (map (\<lambda>t. [real (length t)]) ts))\<rparr>"

definition steady_provider :: provider where
  "steady_provider =
     \<lparr>embedQueryM = (\<lambda>n t. Inr [1, 2]),
      embedDocumentsM = (\<lambda>n ts. Inr (map (\<lambda>t. [real (length t)]) ts))\<rparr>"

definition text_a :: jsstring where
  "text_a = js ''The quick brown fox jumps over the lazy dog''"

definition text_b :: jsstring where
  "text_b = js ''The quick brown fox jumps over the fence''"



section \<open>JavaScript values and helpers shared by the search code\<close>

text \<open>
  A JavaScript number is a real or \<open>NaN\<close> (infinities are not needed here).  Subtraction
  and division propagate \<open>NaN\<close>; every comparison with \<open>NaN\<close> is false.
\<close>

datatype jsnum = Num real | NaN

fun num_sub :: "jsnum \<Rightarrow> jsnum \<Rightarrow> jsnum" where
  "num_sub (Num a) (Num b) = Num (a - b)"
| "num_sub _ _ = NaN"

fun num_div :: "jsnum \<Rightarrow> real \<Rightarrow> jsnum" where
  "num_div (Num a) d = Num (a / d)"
| "num_div NaN d = NaN"

fun num_gt :: "jsnum \<Rightarrow> real \<Rightarrow> bool" where
  "num_gt (Num a) b = (a > b)"
| "num_gt NaN b = False"

fun num_ge :: "jsnum \<Rightarrow> real \<Rightarrow> bool" where
  "num_ge (Num a) b = (a \<ge> b)"
| "num_ge NaN b = False"

text \<open>\<open>Math.max(0, Math.min(1, v))\<close>; both functions return \<open>NaN\<close> on a \<open>NaN\<close> argument.\<close>

fun clamp01 :: "jsnum \<Rightarrow> jsnum" where
  "clamp01 (Num v) = Num (max 0 (min 1 v))"
| "clamp01 NaN = NaN"

text \<open>\<open>x || d\<close> on an optional number that is a real when present.\<close>

definition or_real :: "real option \<Rightarrow> real \<Rightarrow> real" where
  "or_real x d = (case x of None \<Rightarrow> d | Some v \<Rightarrow> if v = 0 then d else v)"

definition Math_floor :: "real \<Rightarrow> int" where
  "Math_floor x = \<lfloor>x\<rfloor>"

text \<open>
  \<open>Array.prototype.slice(0, end)\<close>: \<open>end\<close> is truncated towards zero; a negative \<open>end\<close>
  counts from the end of the array.
\<close>

definition slice0 :: "'a list \<Rightarrow> real \<Rightarrow> 'a list" where
  "slice0 xs e =
     (let rel = (if e < 0 then \<lceil>e\<rceil> else \<lfloor>e\<rfloor>)
      in if rel < 0 then take (nat (int (length xs) + rel)) xs else take (nat rel) xs)"

text \<open>
  \<open>Array.prototype.sort(cmp)\<close> is a stable sort.  \<open>after x y\<close> stands for
  \<open>cmp(x, y) > 0\<close>: \<open>x\<close> has to come after \<open>y\<close>.  For a comparator that is a consistent
  order the result is the one of this stable insertion sort.
\<close>

fun insert_by :: "('a \<Rightarrow> 'a \<Rightarrow> bool) \<Rightarrow> 'a \<Rightarrow> 'a list \<Rightarrow> 'a list" where
  "insert_by after x [] = [x]"
| "insert_by after x (y # ys) = (if after x y then y # insert_by after x ys else x # y # ys)"

definition sort_by :: "('a \<Rightarrow> 'a \<Rightarrow> bool) \<Rightarrow> 'a list \<Rightarrow> 'a list" where
  "sort_by after xs = foldr (insert_by after) xs []"

text \<open>White space as \<open>String.prototype.trim\<close> sees it, on UTF-16 code units.\<close>

definition is_ws :: "nat \<Rightarrow> bool" where
  "is_ws c \<longleftrightarrow>
     c \<in> {9, 10, 11, 12, 13, 32, 160, 5760, 8232, 8233, 8239, 8287, 12288, 65279}
     \<or> (8192 \<le> c \<and> c \<le> 8202)"

definition trim :: "jsstring \<Rightarrow> jsstring" where
  "trim s = rev (dropWhile is_ws (rev (dropWhile is_ws s)))"

text \<open>Substring test (\<open>CONTAINS\<close> of the query language): \<open>q\<close> occurs in \<open>t\<close>.\<close>

fun contains :: "'a list \<Rightarrow> 'a list \<Rightarrow> bool" where
  "contains [] q = (q = [])"
| "contains (x # xs) q = (take (length q) (x # xs) = q \<or> contains xs q)"

section \<open>The graph store\<close>

text \<open>
  The store holds chunk nodes, document nodes and three kinds of edges.  A chunk node is
  identified by its \<open>id\<close> property (nodes are merged on it), a document node by its
  \<open>fileName\<close>; an edge is the pair of the identities of its end points.  An empty string
  stands for a string property that is not set.
\<close>

record chunk =
  c_id :: jsstring
  c_text :: jsstring
  c_position :: int
  c_length :: int
  c_fileName :: jsstring
  c_content_offset :: int
  c_tokens :: int
  c_chunk_index :: int
  c_document_id :: jsstring
  c_embedding :: "vector option"

record document =
  d_fileName :: jsstring
  d_type :: jsstring
  d_uri :: jsstring
  d_domain :: jsstring

record graph =
  chunks :: "chunk list"
  documents :: "document list"
  part_of :: "(jsstring \<times> jsstring) list"
  first_chunk :: "(jsstring \<times> jsstring) list"
  next_chunk :: "(jsstring \<times> jsstring) list"

section \<open>Vector search with context expansion (VectorSearchService)\<close>

record vresult =
  r_id :: jsstring
  r_text :: jsstring
  r_score :: real
  r_fileName :: jsstring
  r_documentId :: jsstring
  r_chunkIndex :: int

record search_options =
  topK :: "real option"
  threshold :: "real option"
  includeAdjacentChunks :: bool
  contextWindow :: "real option"

definition ensureIntegerTopK :: "real option \<Rightarrow> int \<Rightarrow> int" where
  "ensureIntegerTopK k defaultValue = (case k of None \<Rightarrow> defaultValue | Some v \<Rightarrow> Math_floor v)"

definition row_of_chunk :: "chunk \<Rightarrow> real \<Rightarrow> vresult" where
  "row_of_chunk c s =
     \<lparr>r_id = c_id c, r_text = c_text c, r_score = s, r_fileName = c_fileName c,
      r_documentId = c_document_id c, r_chunkIndex = c_chunk_index c\<rparr>"

text \<open>
  \<open>searchSimilarVectors\<close>: the chunks that carry an embedding, scored by the store's cosine
  similarity \<open>sim\<close> against the query vector, kept from the threshold on, ordered by
  descending similarity and limited to \<open>topK\<close>.  The store rejects a negative \<open>LIMIT\<close>.
\<close>

definition searchSimilarVectors ::
  "(vector \<Rightarrow> vector \<Rightarrow> real) \<Rightarrow> graph \<Rightarrow> vector \<Rightarrow> search_options \<Rightarrow> error + vresult list"
where
  "searchSimilarVectors sim g queryVector options =
     (let k = ensureIntegerTopK (topK options) 10;
          th = or_real (threshold options) 0.5;
          rows = concat (map (\<lambda>c. case c_embedding c of
                                      None \<Rightarrow> []
                                    | Some e \<Rightarrow> if sim e queryVector \<ge> th
                                                then [row_of_chunk c (sim e queryVector)] else [])
                          (chunks g));
          ordered = sort_by (\<lambda>a b. r_score b - r_score a > 0) rows
      in if k < 0 then Inl (StoreError ''LIMIT'') else Inr (take (nat k) ordered))"

text \<open>
  \<open>search\<close> of the vector service: the query vector is what the embedding model answered
  for the query (\<open>Inl\<close> when it rejected); the error is thrown on.
\<close>

definition vector_search ::
  "(vector \<Rightarrow> vector \<Rightarrow> real) \<Rightarrow> graph \<Rightarrow> error + vector \<Rightarrow> search_options \<Rightarrow> error + vresult list"
where
  "vector_search sim g queryVector options =
     (case queryVector of
        Inl e \<Rightarrow> Inl e
      | Inr v \<Rightarrow> searchSimilarVectors sim g v options)"

text \<open>
  The variable-length pattern \<open>-[:NEXT_CHUNK*1..W]->\<close>: one row for every path of one to
  \<open>W\<close> edges that starts at the chunk and uses no edge twice; the row is the end node.
\<close>

fun hops :: "(jsstring \<times> jsstring) list \<Rightarrow> nat \<Rightarrow> jsstring \<Rightarrow> (jsstring \<times> jsstring) list \<Rightarrow> jsstring list" where
  "hops edges 0 c used = []"
| "hops edges (Suc k) c used =
     concat (map (\<lambda>e. if fst e = c \<and> e \<notin> set used
                       then snd e # hops edges k (snd e) (e # used) else [])
                 edges)"

definition chunks_with_id :: "graph \<Rightarrow> jsstring \<Rightarrow> chunk list" where
  "chunks_with_id g i = filter (\<lambda>c. c_id c = i) (chunks g)"

text \<open>
  \<open>getAdjacentChunks\<close>: nothing when the chunk does not exist; otherwise the union (without
  duplicate rows) of the forward and the backward neighbours, each with the score 0.8.
  A window below one matches no path (or is rejected by the store, which the function
  catches): nothing either.
\<close>

definition getAdjacentChunks :: "graph \<Rightarrow> jsstring \<Rightarrow> real \<Rightarrow> vresult list" where
  "getAdjacentChunks g chunkId window =
     (if chunks_with_id g chunkId = [] then []
      else
        let contextWindowInt = Math_floor window;
            forward = hops (next_chunk g) (nat contextWindowInt) chunkId [];
            backward = hops (map prod.swap (next_chunk g)) (nat contextWindowInt) chunkId [];
            row = (\<lambda>i. map (\<lambda>c. row_of_chunk c 0.8) (chunks_with_id g i))
        in remdups (concat (map row forward) @ concat (map row backward)))"

fun removeDuplicates_from :: "jsstring list \<Rightarrow> vresult list \<Rightarrow> vresult list" where
  "removeDuplicates_from seen [] = []"
| "removeDuplicates_from seen (r # rs) =
     (if r_id r \<in> set seen then removeDuplicates_from seen rs
      else r # removeDuplicates_from (r_id r # seen) rs)"

definition removeDuplicates :: "vresult list \<Rightarrow> vresult list" where
  "removeDuplicates results = removeDuplicates_from [] results"

definition searchWithContext ::
  "(vector \<Rightarrow> vector \<Rightarrow> real) \<Rightarrow> graph \<Rightarrow> error + vector \<Rightarrow> search_options \<Rightarrow> error + vresult list"
where
  "searchWithContext sim g queryVector options =
     (case vector_search sim g queryVector options of
        Inl e \<Rightarrow> Inl e
      | Inr results \<Rightarrow>
          if \<not> includeAdjacentChunks options \<or> length results = 0 then Inr results
          else
            let w = Math_floor (or_real (contextWindow options) 2);
                expandedResults =
                  concat (map (\<lambda>r. r # getAdjacentChunks g (r_id r) (real_of_int w)) results);
                uniqueResults = removeDuplicates expandedResults
            in Inr (sort_by (\<lambda>a b. r_score b - r_score a > 0) uniqueResults))"

section \<open>Retrieval strategy engine (UnifiedSearch)\<close>

text \<open>
  A raw score is any JavaScript value: a number, an object with optional \<open>low\<close> and
  \<open>high\<close> components (the store's integer objects), \<open>null\<close>, \<open>undefined\<close>, or another value
  (a string, a boolean) of which only the truthiness matters.
\<close>

datatype rawscore =
    SNum jsnum
  | SObj "jsnum option" "jsnum option"
  | SNull
  | SUndefined
  | SOther bool

fun truthy :: "rawscore \<Rightarrow> bool" where
  "truthy (SNum (Num x)) = (x \<noteq> 0)"
| "truthy (SNum NaN) = False"
| "truthy (SObj l h) = True"
| "truthy SNull = False"
| "truthy SUndefined = False"
| "truthy (SOther b) = b"

record sresult =
  content :: jsstring
  source :: jsstring
  score :: rawscore
  m_type :: string
  m_chunkId :: jsstring
  m_documentId :: jsstring
  m_chunkIndex :: int
  m_searchMethod :: string

text \<open>What \<open>optimizeResults\<close> returns: the result with the field \<open>normalizedScore\<close> added.\<close>

record nresult = sresult +
  normalizedScore :: jsnum

record SearchQuery =
  q_query :: jsstring
  q_limit :: "real option"

record text_search_options =
  t_limit :: "real option"

record SearchStrategy =
  s_name :: string
  useVectorSearch :: bool
  useTextSearch :: bool
  vectorSearchOptions :: "search_options option"
  textSearchOptions :: "text_search_options option"

datatype strategy_ref = ByName string | ByValue SearchStrategy | NoStrategy

record UnifiedSearchOptions =
  strategy :: strategy_ref
  fallbackToText :: "bool option"

text \<open>The predefined strategies.\<close>

definition vector_only :: SearchStrategy where
  "vector_only =
     \<lparr>s_name = ''vector-only'', useVectorSearch = True, useTextSearch = False,
      vectorSearchOptions =
        Some \<lparr>topK = Some 8, threshold = Some 0.5, includeAdjacentChunks = False,
              contextWindow = Some 2\<rparr>,
      textSearchOptions = None\<rparr>"

definition hybrid_vector_heavy :: SearchStrategy where
  "hybrid_vector_heavy =
     \<lparr>s_name = ''hybrid-vector-heavy'', useVectorSearch = True, useTextSearch = True,
      vectorSearchOptions =
        Some \<lparr>topK = Some 8, threshold = Some 0.5, includeAdjacentChunks = True,
              contextWindow = Some 2\<rparr>,
      textSearchOptions = Some \<lparr>t_limit = Some 2\<rparr>\<rparr>"

definition vector_with_context :: SearchStrategy where
  "vector_with_context =
     \<lparr>s_name = ''vector-with-context'', useVectorSearch = True, useTextSearch = False,
      vectorSearchOptions =
        Some \<lparr>topK = Some 8, threshold = Some 0.5, includeAdjacentChunks = True,
              contextWindow = Some 2\<rparr>,
      textSearchOptions = None\<rparr>"

definition searchStrategies :: "string \<rightharpoonup> SearchStrategy" where
  "searchStrategies =
     [''vector-only'' \<mapsto> vector_only,
      ''hybrid-vector-heavy'' \<mapsto> hybrid_vector_heavy,
      ''vector-with-context'' \<mapsto> vector_with_context]"

text \<open>
  \<open>resolveStrategy\<close>, over the current strategy table (\<open>addStrategy\<close> may have extended the
  predefined one): an unknown name and a missing strategy fall back to
  \<open>vector-with-context\<close>, which the table always holds.
\<close>

definition resolveStrategy :: "(string \<rightharpoonup> SearchStrategy) \<Rightarrow> strategy_ref \<Rightarrow> SearchStrategy" where
  "resolveStrategy table s =
     (case s of
        ByName n \<Rightarrow>
          (case table n of
             Some found \<Rightarrow> found
           | None \<Rightarrow> (case table ''vector-with-context'' of Some d \<Rightarrow> d | None \<Rightarrow> vector_with_context))
      | ByValue v \<Rightarrow> v
      | NoStrategy \<Rightarrow>
          (case table ''vector-with-context'' of Some d \<Rightarrow> d | None \<Rightarrow> vector_with_context))"

definition no_options :: search_options where
  "no_options = \<lparr>topK = None, threshold = None, includeAdjacentChunks = False, contextWindow = None\<rparr>"

definition or_string :: "jsstring \<Rightarrow> jsstring \<Rightarrow> jsstring" where
  "or_string a b = (if a = [] then b else a)"

definition performVectorSearch ::
  "(vector \<Rightarrow> vector \<Rightarrow> real) \<Rightarrow> graph \<Rightarrow> error + vector \<Rightarrow> SearchQuery \<Rightarrow> search_options option
   \<Rightarrow> error + sresult list"
where
  "performVectorSearch sim g queryVector query opts =
     (let options = (case opts of None \<Rightarrow> no_options | Some opt \<Rightarrow> opt);
          k0 = Math_floor (or_real (topK options) 10);
          k = (if includeAdjacentChunks options then max k0 8
               else Math_floor (or_real (q_limit query) (real_of_int k0)));
          args = \<lparr>topK = Some (real_of_int k),
                  threshold = Some (or_real (threshold options) 0.5),
                  includeAdjacentChunks = includeAdjacentChunks options,
                  contextWindow = Some (real_of_int (Math_floor (or_real (contextWindow options) 2)))\<rparr>;
          answer = (if includeAdjacentChunks options then searchWithContext sim g queryVector args
                    else vector_search sim g queryVector args)
      in case answer of
           Inl e \<Rightarrow> Inl e
         | Inr vectorResults \<Rightarrow>
             Inr (map (\<lambda>r. \<lparr>content = r_text r,
                             source = or_string (r_fileName r) (or_string (r_id r) (js ''unknown'')),
                             score = SNum (Num (r_score r)),
                             m_type = ''vector_chunk'',
                             m_chunkId = or_string (r_id r) (js ''unknown''),
                             m_documentId = or_string (r_documentId r) (js ''unknown''),
                             m_chunkIndex = r_chunkIndex r,
                             m_searchMethod = ''vector''\<rparr>)
                      (filter (\<lambda>r. length (trim (r_text r)) > 0) vectorResults)))"

text \<open>
  \<open>performTextSearch\<close>.  The query of the store: the chunks whose text \<open>CONTAINS\<close> the query
  string; the score is 0.8 when the lower-cased text contains the lower-cased query and
  0.3 otherwise; ordered by descending score, then ascending chunk index; limited.
  \<open>toLower\<close> is the store's lower-casing function.
\<close>

definition text_rows ::
  "(jsstring \<Rightarrow> jsstring) \<Rightarrow> graph \<Rightarrow> jsstring \<Rightarrow> (jsstring \<times> jsstring \<times> real \<times> int) list"
where
  "text_rows toLower g q =
     map (\<lambda>c. (c_text c, c_id c,
                if contains (toLower (c_text c)) (toLower q) then 0.8 else 0.3,
                c_chunk_index c))
         (filter (\<lambda>c. contains (c_text c) q) (chunks g))"

definition textLimit :: "SearchQuery \<Rightarrow> text_search_options option \<Rightarrow> int" where
  "textLimit query opts =
     Math_floor
       (or_real (case opts of None \<Rightarrow> None | Some opt \<Rightarrow> t_limit opt)
          (or_real (q_limit query) 10))"

definition performTextSearch ::
  "(jsstring \<Rightarrow> jsstring) \<Rightarrow> graph \<Rightarrow> SearchQuery \<Rightarrow> text_search_options option
   \<Rightarrow> error + sresult list"
where
  "performTextSearch toLower g query opts =
     (let limit = textLimit query opts;
          ordered = sort_by (\<lambda>(ca, ia, sa, xa) (cb, ib, sb, xb). sa < sb \<or> (sa = sb \<and> xa > xb))
                      (text_rows toLower g (q_query query))
      in if limit < 0 then Inl (StoreError ''LIMIT'')
         else
           Inr (map (\<lambda>(c, i, s, x).
                       \<lparr>content = c, source = or_string i (js ''unknown''),
                        score = SNum (Num s),
                        m_type = ''text_chunk'', m_chunkId = or_string i (js ''unknown''),
                        m_documentId = [], m_chunkIndex = 0,
                        m_searchMethod = ''text''\<rparr>)
                    (filter (\<lambda>(c, i, s, x). length (trim c) > 0 \<and> i \<noteq> [])
                       (take (nat limit) ordered))))"

text \<open>\<open>normalizeScore\<close>.\<close>

fun normalizeScore :: "rawscore \<Rightarrow> jsnum" where
  "normalizeScore (SNum v) = clamp01 v"
| "normalizeScore (SObj (Some low) high) = clamp01 (num_div low 100)"
| "normalizeScore (SObj None (Some high)) = clamp01 (num_div high 100)"
| "normalizeScore _ = Num 0.5"

definition dedup_key :: "nresult \<Rightarrow> jsstring" where
  "dedup_key r = or_string (source r) (js ''unknown'') @ js ''_'' @ take 100 (content r)"

fun dedup_from :: "jsstring list \<Rightarrow> nresult list \<Rightarrow> nresult list" where
  "dedup_from seen [] = []"
| "dedup_from seen (r # rs) =
     (if dedup_key r \<in> set seen then dedup_from seen rs
      else r # dedup_from (dedup_key r # seen) rs)"

definition optimizeResults :: "sresult list \<Rightarrow> real \<Rightarrow> nresult list" where
  "optimizeResults results limit =
     (let validResults = filter (\<lambda>r. length (trim (content r)) > 0) results
      in if length validResults = 0 then []
         else
           let normalizedResults =
                 map (\<lambda>r. sresult.extend r (nresult.fields (normalizeScore (score r)))) validResults;
               sorted = sort_by (\<lambda>a b. num_gt (num_sub (normalizedScore b) (normalizedScore a)) 0)
                          normalizedResults;
               uniqueResults = dedup_from [] sorted;
               qualityThreshold = 0.01;
               filteredResults = filter (\<lambda>r. num_ge (normalizedScore r) qualityThreshold) uniqueResults
           in slice0 filteredResults limit)"

text \<open>
  The limit \<open>search\<close> hands to \<open>optimizeResults\<close>: the strategy's \<open>topK\<close> when it has one,
  the query's limit (10 by default) otherwise.
\<close>

definition resultLimit :: "SearchStrategy \<Rightarrow> SearchQuery \<Rightarrow> real" where
  "resultLimit st query =
     (case (case vectorSearchOptions st of None \<Rightarrow> None | Some opt \<Rightarrow> topK opt) of
        Some k \<Rightarrow> if k = 0 then real_of_int (Math_floor (or_real (q_limit query) 10)) else k
      | None \<Rightarrow> real_of_int (Math_floor (or_real (q_limit query) 10)))"

text \<open>
  \<open>search\<close>, in its three steps.  Step 1 (\<open>vectorBranch\<close>): a failure of the vector
  search is caught; the lexical fallback runs in the handler, so its own failure reaches
  the outer handler of \<open>search\<close>, which returns the empty list.  Step 2 (\<open>textBranch\<close>): a
  failure of the lexical search is caught and leaves the results as they are.  Step 3:
  \<open>optimizeResults\<close>.
\<close>

definition vectorBranch ::
  "(vector \<Rightarrow> vector \<Rightarrow> real) \<Rightarrow> (jsstring \<Rightarrow> jsstring) \<Rightarrow> graph \<Rightarrow> error + vector
   \<Rightarrow> SearchStrategy \<Rightarrow> SearchQuery \<Rightarrow> UnifiedSearchOptions \<Rightarrow> error + sresult list"
where
  "vectorBranch sim toLower g queryVector st query options =
     (if useVectorSearch st then
        (case performVectorSearch sim g queryVector query (vectorSearchOptions st) of
           Inr vectorResults \<Rightarrow> Inr vectorResults
         | Inl e \<Rightarrow>
             if \<not> useTextSearch st \<and> fallbackToText options \<noteq> Some False then
               performTextSearch toLower g query
                 (Some \<lparr>t_limit = Some (real_of_int (Math_floor (or_real (q_limit query) 10)))\<rparr>)
             else Inr [])
      else Inr [])"

definition textBranch ::
  "(jsstring \<Rightarrow> jsstring) \<Rightarrow> graph \<Rightarrow> SearchStrategy \<Rightarrow> SearchQuery \<Rightarrow> sresult list
   \<Rightarrow> sresult list"
where
  "textBranch toLower g st query results =
     (if useTextSearch st then
        (case performTextSearch toLower g query (textSearchOptions st) of
           Inr textResults \<Rightarrow> results @ textResults
         | Inl e \<Rightarrow> results)
      else results)"

definition search ::
  "(string \<rightharpoonup> SearchStrategy) \<Rightarrow> (vector \<Rightarrow> vector \<Rightarrow> real) \<Rightarrow> (jsstring \<Rightarrow> jsstring) \<Rightarrow> graph
   \<Rightarrow> error + vector \<Rightarrow> SearchQuery \<Rightarrow> UnifiedSearchOptions \<Rightarrow> nresult list"
where
  "search table sim toLower g queryVector query options =
     (let st = resolveStrategy table (strategy options)
      in case vectorBranch sim toLower g queryVector st query options of
           Inl e \<Rightarrow> []
         | Inr results1 \<Rightarrow>
             optimizeResults (textBranch toLower g st query results1) (resultLimit st query))"

subsection \<open>Fixtures: a document of three chunks and a query vector\<close>

text \<open>
  Embeddings and query vector are unit vectors, for which the store's cosine similarity
  is the dot product.
\<close>

definition dot :: "vector \<Rightarrow> vector \<Rightarrow> real" where
  "dot a b = sum_list (map (\<lambda>(x, y). x * y) (zip a b))"

definition lower_ascii :: "jsstring \<Rightarrow> jsstring" where
  "lower_ascii s = map (\<lambda>c. if 65 \<le> c \<and> c \<le> 90 then c + 32 else c) s"

definition mk_chunk :: "string \<Rightarrow> string \<Rightarrow> int \<Rightarrow> vector \<Rightarrow> chunk" where
  "mk_chunk i t pos e =
     \<lparr>c_id = js i, c_text = js t, c_position = pos, c_length = int (length t),
      c_fileName = js ''doc.md'', c_content_offset = 0, c_tokens = 1, c_chunk_index = pos,
      c_document_id = [], c_embedding = Some e\<rparr>"

definition chunk1 :: chunk where
  "chunk1 = mk_chunk ''c1'' ''West Germany University'' 1 [1, 0, 0]"

definition chunk2 :: chunk where
  "chunk2 = mk_chunk ''c2'' ''was founded later'' 2 [0, 1, 0]"

definition chunk3 :: chunk where
  "chunk3 = mk_chunk ''c3'' ''and closed again'' 3 [0, 1, 0]"

definition demo_graph :: graph where
  "demo_graph =
     \<lparr>chunks = [chunk1, chunk2, chunk3],
      documents = [\<lparr>d_fileName = js ''doc.md'', d_type = js ''document'', d_uri = [],
                     d_domain = js ''general''\<rparr>],
      part_of = [(js ''c1'', js ''doc.md''), (js ''c2'', js ''doc.md''), (js ''c3'', js ''doc.md'')],
      first_chunk = [(js ''doc.md'', js ''c1'')],
      next_chunk = [(js ''c1'', js ''c2''), (js ''c2'', js ''c3'')]\<rparr>"

definition demo_query_vector :: vector where
  "demo_query_vector = [0.6, 0, 0.8]"

definition context_options :: search_options where
  "context_options =
     \<lparr>topK = Some 8, threshold = Some 0.5, includeAdjacentChunks = True, contextWindow = Some 2\<rparr>"

definition demo_query :: SearchQuery where
  "demo_query = \<lparr>q_query = js ''west'', q_limit = Some 1\<rparr>"

definition demo_options :: UnifiedSearchOptions where
  "demo_options = \<lparr>strategy = ByName ''vector-with-context'', fallbackToText = None\<rparr>"

definition vector_hit :: "chunk \<Rightarrow> real \<Rightarrow> sresult" where
  "vector_hit c s =
     \<lparr>content = c_text c, source = c_fileName c, score = SNum (Num s),
      m_type = ''vector_chunk'', m_chunkId = c_id c, m_documentId = js ''unknown'',
      m_chunkIndex = c_chunk_index c, m_searchMethod = ''vector''\<rparr>"

definition ranked :: "sresult \<Rightarrow> jsnum \<Rightarrow> nresult" where
  "ranked r n = sresult.extend r (nresult.fields n)"



section \<open>Graph writer (createRelationBetweenChunks, createChunksAndRelationshipsOptimized)\<close>




subsection \<open>The three store queries of createChunksAndRelationshipsOptimized\<close>









subsection \<open>createDocument and createRelationBetweenChunks\<close>





subsection \<open>Reading the order chain\<close>





subsection \<open>Fixtures: a stand-in for the digest and two small documents\<close>





section \<open>Chunker (EnhancedTextChunker)\<close>

text \<open>
  The options as the constructor leaves them.  Sizes are JavaScript numbers that the
  configuration reads with \<open>parseInt\<close>: integers, not necessarily positive.
\<close>

record ChunkingOptions =
  chunkSize :: int
  overlap :: int
  maxTextLength :: int
  preserveSentences :: bool
  multilingualSupport :: bool

text \<open>
  \<open>text[i]\<close> is \<open>undefined\<close> outside the string, and \<open>String.prototype.slice\<close> takes
  negative positions from the end and clamps both positions into the string.
\<close>

definition char_at :: "jsstring \<Rightarrow> int \<Rightarrow> nat option" where
  "char_at t i = (if 0 \<le> i \<and> i < int (length t) then Some (t ! nat i) else None)"

definition js_slice :: "jsstring \<Rightarrow> int \<Rightarrow> int \<Rightarrow> jsstring" where
  "js_slice t a b =
     (let len = int (length t);
          lo = (if a < 0 then max (len + a) 0 else min a len);
          hi = (if b < 0 then max (len + b) 0 else min b len)
      in take (nat (hi - lo)) (drop (nat lo) t))"

definition trunc :: "real \<Rightarrow> int" where
  "trunc x = (if x < 0 then \<lceil>x\<rceil> else \<lfloor>x\<rfloor>)"

text \<open>
  The sentence endings: full stop, exclamation mark and question mark, and their wide
  forms (U+3002, U+FF01, U+FF1F) with multilingual support.  The test of \<open>undefined\<close>
  fails.
\<close>

definition sentenceEndings :: "ChunkingOptions \<Rightarrow> nat list" where
  "sentenceEndings opts =
     (if multilingualSupport opts then [12290, 65281, 65311, 46, 33, 63] else [46, 33, 63])"

definition isSentenceEnding :: "ChunkingOptions \<Rightarrow> nat option \<Rightarrow> bool" where
  "isSentenceEnding opts ch = (case ch of None \<Rightarrow> False | Some c \<Rightarrow> c \<in> set (sentenceEndings opts))"

function findNextSentenceEnd :: "ChunkingOptions \<Rightarrow> jsstring \<Rightarrow> int \<Rightarrow> int" where
  "findNextSentenceEnd opts t i =
     (if i < int (length t)
      then (if isSentenceEnding opts (char_at t i) then i + 1
            else findNextSentenceEnd opts t (i + 1))
      else int (length t))"
  by pat_completeness auto
termination
  by (relation "measure (\<lambda>(opts, t, i). nat (int (length t) - i))") auto

declare findNextSentenceEnd.simps [simp del]

function skipWhitespace :: "jsstring \<Rightarrow> int \<Rightarrow> int" where
  "skipWhitespace t nextPos =
     (if nextPos < int (length t) \<and> (case char_at t nextPos of None \<Rightarrow> False | Some c \<Rightarrow> is_ws c)
      then skipWhitespace t (nextPos + 1) else nextPos)"
  by pat_completeness auto
termination
  by (relation "measure (\<lambda>(t, i). nat (int (length t) - i))") auto

declare skipWhitespace.simps [simp del]

text \<open>The loop of \<open>findPreviousSentenceStart\<close>, from \<open>i = startPos - 1\<close> downwards.\<close>

function previousFrom :: "ChunkingOptions \<Rightarrow> jsstring \<Rightarrow> int \<Rightarrow> int" where
  "previousFrom opts t i =
     (if i \<ge> 0
      then (if isSentenceEnding opts (char_at t i) then skipWhitespace t (i + 1)
            else previousFrom opts t (i - 1))
      else 0)"
  by pat_completeness auto
termination
  by (relation "measure (\<lambda>(opts, t, i). nat (i + 1))") auto

declare previousFrom.simps [simp del]

definition findPreviousSentenceStart :: "ChunkingOptions \<Rightarrow> jsstring \<Rightarrow> int \<Rightarrow> int" where
  "findPreviousSentenceStart opts t startPos = previousFrom opts t (startPos - 1)"

subsection \<open>chunkSingleSegment\<close>

text \<open>
  The end of the window that starts at \<open>startPos\<close>: \<open>chunkSize\<close> characters, or the rest of
  the text; before the end of the text and with sentence preservation, the next
  sentence end instead, unless it lies more than 100 characters beyond the plain window.
\<close>

definition windowEnd :: "ChunkingOptions \<Rightarrow> jsstring \<Rightarrow> int \<Rightarrow> int" where
  "windowEnd opts t startPos =
     (let endPos = min (startPos + chunkSize opts) (int (length t))
      in if endPos < int (length t) \<and> preserveSentences opts then
           (let sentenceEnd = findNextSentenceEnd opts t endPos
            in if sentenceEnd \<le> startPos + chunkSize opts + 100 then sentenceEnd else endPos)
         else endPos)"

text \<open>
  The start of the next window: the overlap start, or with sentence preservation the
  previous sentence start when it lies strictly inside the window; then the guard
  against an endless loop.
\<close>

definition nextStart :: "ChunkingOptions \<Rightarrow> jsstring \<Rightarrow> int \<Rightarrow> int \<Rightarrow> int" where
  "nextStart opts t startPos endPos =
     (let overlapStart = max startPos (endPos - overlap opts);
          s1 = (if preserveSentences opts then
                  (let nextSentenceStart = findPreviousSentenceStart opts t overlapStart
                   in if nextSentenceStart > startPos \<and> nextSentenceStart < endPos
                      then nextSentenceStart else overlapStart)
                else overlapStart)
      in if s1 \<ge> endPos then endPos else s1)"

text \<open>
  The \<open>while\<close> loop, one unit of fuel for each iteration; \<open>None\<close> when the fuel runs out
  before the loop ends.
\<close>

fun segmentLoop ::
  "nat \<Rightarrow> ChunkingOptions \<Rightarrow> jsstring \<Rightarrow> int \<Rightarrow> jsstring list \<Rightarrow> jsstring list option"
where
  "segmentLoop 0 opts t startPos collected = None"
| "segmentLoop (Suc fuel) opts t startPos collected =
     (if startPos < int (length t) then
        (let endPos = windowEnd opts t startPos;
             chunk = trim (js_slice t startPos endPos);
             collected' = (if chunk \<noteq> [] then collected @ [chunk] else collected)
         in if endPos \<ge> int (length t) then Some collected'
            else segmentLoop fuel opts t (nextStart opts t startPos endPos) collected')
      else Some collected)"

definition chunkSingleSegment :: "nat \<Rightarrow> ChunkingOptions \<Rightarrow> jsstring \<Rightarrow> jsstring list option" where
  "chunkSingleSegment fuel opts t =
     (if t = [] \<or> length (trim t) = 0 then Some []
      else if int (length t) \<le> chunkSize opts then Some [trim t]
      else segmentLoop fuel opts t 0 [])"

subsection \<open>preprocessLargeText\<close>

text \<open>
  \<open>split\<close> at the paragraph separator, a line feed, any white space and a line feed: a
  separator starts at a line feed that is followed, after white space only, by another
  line feed, and ends after the last line feed of that white space.  The fallback
  splits at every line feed.
\<close>

function split_paragraphs :: "jsstring \<Rightarrow> jsstring \<Rightarrow> jsstring list" where
  "split_paragraphs [] piece = [piece]"
| "split_paragraphs (c # rest) piece =
     (let ws = takeWhile is_ws rest
      in if c = 10 \<and> 10 \<in> set ws
         then piece # split_paragraphs
                (drop (length ws - length (takeWhile (\<lambda>x. x \<noteq> 10) (rev ws))) rest) []
         else split_paragraphs rest (piece @ [c]))"
  by pat_completeness auto
termination
  by (relation "measure (\<lambda>(t, piece). length t)") auto

fun split_lines :: "jsstring \<Rightarrow> jsstring \<Rightarrow> jsstring list" where
  "split_lines [] piece = [piece]"
| "split_lines (c # rest) piece =
     (if c = 10 then piece # split_lines rest [] else split_lines rest (piece @ [c]))"

text \<open>
  \<open>split\<close> at the six sentence endings, in a capture group: the pieces between the
  endings, each ending as a piece of its own between them.
\<close>

fun split_endings :: "jsstring \<Rightarrow> jsstring \<Rightarrow> jsstring list" where
  "split_endings [] piece = [piece]"
| "split_endings (c # rest) piece =
     (if c \<in> {12290, 65281, 65311, 46, 33, 63}
      then piece # [c] # split_endings rest []
      else split_endings rest (piece @ [c]))"

fun recombine :: "jsstring list \<Rightarrow> jsstring list" where
  "recombine (sentence # punctuation # rest) =
     (if trim sentence \<noteq> [] then [sentence @ punctuation] else []) @ recombine rest"
| "recombine _ = []"

definition splitIntoSentences :: "ChunkingOptions \<Rightarrow> jsstring \<Rightarrow> jsstring list" where
  "splitIntoSentences opts t =
     (if \<not> preserveSentences opts then [t]
      else
        let sentenceParts = split_endings t []
        in recombine sentenceParts
           @ (if length sentenceParts mod 2 = 1 \<and> trim (last sentenceParts) \<noteq> []
              then [last sentenceParts] else []))"

text \<open>
  \<open>splitByFixedLength\<close>: the loop variable advances by \<open>maxSize\<close>, which is a real (half of
  an odd \<open>maxTextLength\<close>) and need not be positive; one unit of fuel for each iteration.
\<close>

fun fixedLengthLoop :: "nat \<Rightarrow> jsstring \<Rightarrow> real \<Rightarrow> real \<Rightarrow> jsstring list option" where
  "fixedLengthLoop 0 t maxSize i = None"
| "fixedLengthLoop (Suc fuel) t maxSize i =
     (if i < real (length t)
      then map_option ((#) (js_slice t (trunc i) (trunc (i + maxSize))))
             (fixedLengthLoop fuel t maxSize (i + maxSize))
      else Some [])"

definition splitByFixedLength :: "nat \<Rightarrow> jsstring \<Rightarrow> real \<Rightarrow> jsstring list option" where
  "splitByFixedLength fuel t maxSize = fixedLengthLoop fuel t maxSize 0"

text \<open>The loop of \<open>splitLongParagraph\<close> over the sentences; the state is \<open>(segments, currentSegment)\<close>.\<close>

fun sentenceLoop ::
  "nat \<Rightarrow> real \<Rightarrow> jsstring list \<Rightarrow> jsstring list \<Rightarrow> jsstring \<Rightarrow> jsstring list option"
where
  "sentenceLoop fuel maxSize [] segments currentSegment =
     Some (if currentSegment \<noteq> [] then segments @ [currentSegment] else segments)"
| "sentenceLoop fuel maxSize (sentence # rest) segments currentSegment =
     (if real (length sentence) > maxSize then
        (case splitByFixedLength fuel sentence maxSize of
           None \<Rightarrow> None
         | Some splitSentences \<Rightarrow>
             sentenceLoop fuel maxSize rest
               ((if currentSegment \<noteq> [] then segments @ [currentSegment] else segments)
                @ splitSentences) [])
      else if real (length currentSegment + length sentence) > maxSize then
        sentenceLoop fuel maxSize rest
          (if currentSegment \<noteq> [] then segments @ [currentSegment] else segments) sentence
      else sentenceLoop fuel maxSize rest segments (currentSegment @ sentence))"

definition splitLongParagraph ::
  "nat \<Rightarrow> ChunkingOptions \<Rightarrow> jsstring \<Rightarrow> real \<Rightarrow> jsstring list option"
where
  "splitLongParagraph fuel opts t maxSize =
     (if real (length t) \<le> maxSize then Some [t]
      else
        let sentences = splitIntoSentences opts t
        in if length sentences = 0 then splitByFixedLength fuel t maxSize
           else sentenceLoop fuel maxSize sentences [] [])"

text \<open>The loop of \<open>preprocessLargeText\<close> over the paragraphs.\<close>

fun paragraphLoop ::
  "nat \<Rightarrow> ChunkingOptions \<Rightarrow> real \<Rightarrow> jsstring list \<Rightarrow> jsstring list \<Rightarrow> jsstring
   \<Rightarrow> jsstring list option"
where
  "paragraphLoop fuel opts targetSegmentSize [] processedSegments currentSegment =
     Some (if currentSegment \<noteq> [] then processedSegments @ [currentSegment]
           else processedSegments)"
| "paragraphLoop fuel opts targetSegmentSize (para # rest) processedSegments currentSegment =
     (let trimmedPara = trim para
      in if trimmedPara = [] then
           paragraphLoop fuel opts targetSegmentSize rest processedSegments currentSegment
         else if real (length trimmedPara) > targetSegmentSize then
           (case splitLongParagraph fuel opts trimmedPara targetSegmentSize of
              None \<Rightarrow> None
            | Some splitParas \<Rightarrow>
                paragraphLoop fuel opts targetSegmentSize rest
                  ((if currentSegment \<noteq> [] then processedSegments @ [currentSegment]
                    else processedSegments) @ splitParas) [])
         else if real (length currentSegment + length trimmedPara + 2) > targetSegmentSize then
           paragraphLoop fuel opts targetSegmentSize rest
             (if currentSegment \<noteq> [] then processedSegments @ [currentSegment]
              else processedSegments) trimmedPara
         else
           paragraphLoop fuel opts targetSegmentSize rest processedSegments
             (if currentSegment \<noteq> [] then currentSegment @ [10, 10] @ trimmedPara
              else trimmedPara))"

definition preprocessLargeText :: "nat \<Rightarrow> ChunkingOptions \<Rightarrow> jsstring \<Rightarrow> jsstring list option" where
  "preprocessLargeText fuel opts t =
     (if int (length t) \<le> maxTextLength opts then Some [t]
      else
        let targetSegmentSize =
              min (real_of_int (maxTextLength opts))
                  (max 10000 (real_of_int (maxTextLength opts) / 2));
            byParagraph = split_paragraphs t [];
            paragraphs = (if length byParagraph < 5 then split_lines t [] else byParagraph)
        in paragraphLoop fuel opts targetSegmentSize paragraphs [] [])"

subsection \<open>chunkText\<close>

text \<open>
  \<open>chunkText\<close> with fuel for each of its loops that may run for ever: \<open>None\<close> when one of
  them does not end within the fuel.
\<close>

definition chunkText :: "nat \<Rightarrow> ChunkingOptions \<Rightarrow> jsstring \<Rightarrow> jsstring list option" where
  "chunkText fuel opts t =
     (if t = [] \<or> length (trim t) = 0 then Some []
      else if real (length t) < real_of_int (chunkSize opts) / 10 then Some [trim t]
      else
        (case preprocessLargeText fuel opts t of
           None \<Rightarrow> None
         | Some textSegments \<Rightarrow>
             map_option concat (those (map (chunkSingleSegment fuel opts) textSegments))))"

subsection \<open>Fixtures: a small chunk size with the default overlap\<close>

definition small_chunks :: ChunkingOptions where
  "small_chunks =
     \<lparr>chunkSize = 10, overlap = 200, maxTextLength = 1000000, preserveSentences = True,
      multilingualSupport = False\<rparr>"

definition two_sentences :: jsstring where
  "two_sentences = js ''abcdefghijkl. mnopq''"

definition default_chunks :: ChunkingOptions where
  "default_chunks =
     \<lparr>chunkSize = 10, overlap = 3, maxTextLength = 1000000, preserveSentences = True,
      multilingualSupport = False\<rparr>"

section \<open>Properties of the embedding cache\<close>

lemma base64_take:
  "3 * k \<le> length bs \<Longrightarrow> take (4 * k) (base64 bs) = base64 (take (3 * k) bs)"
proof (induction k arbitrary: bs)
  case 0
  then show ?case by simp
next
  case (Suc k)
  then obtain a b c rest where bs: "bs = a # b # c # rest"
    by (cases bs rule: base64.cases) auto
  with Suc.prems have "3 * k \<le> length rest" by simp
  from Suc.IH [OF this] have IH: "take (4 * k) (base64 rest) = base64 (take (3 * k) rest)" .
  have e4: "4 * Suc k = Suc (Suc (Suc (Suc (4 * k))))" by simp
  have e3: "3 * Suc k = Suc (Suc (Suc (3 * k)))" by simp
  show ?case unfolding e4 e3 bs by (simp add: IH)
qed

lemma take_eq_imp_base64_prefix_eq:
  assumes "take 24 xs = take 24 ys"
  shows "take 32 (base64 xs) = take 32 (base64 ys)"
proof (cases "24 \<le> length xs")
  case True
  from assms have "length (take 24 xs) = length (take 24 ys)" by simp
  with True have ys: "24 \<le> length ys" by simp
  have "take (4 * 8) (base64 xs) = base64 (take (3 * 8) xs)"
    using True by (intro base64_take) simp
  moreover have "take (4 * 8) (base64 ys) = base64 (take (3 * 8) ys)"
    using ys by (intro base64_take) simp
  ultimately show ?thesis using assms by simp
next
  case False
  from assms have "length (take 24 xs) = length (take 24 ys)" by simp
  with False have "length ys = length xs" by simp
  with False assms have "xs = ys" by simp
  then show ?thesis by simp
qed

lemma getFromCache_hit:
  "cache s k = Some c \<Longrightarrow> now s - timestamp c < ttl c \<Longrightarrow> getFromCache k s = (embedding c, s)"
  by (simp add: getFromCache_def)

lemma getFromCache_absent:
  "cache s k = None \<Longrightarrow> getFromCache k s = (None, s)"
  by (simp add: getFromCache_def)

text \<open>
  C5.  A text absent from the cache, three retry attempts configured, a provider that
  rejects the first two calls and answers \<open>v\<close> on the third: \<open>embedQuery\<close> returns
  exactly \<open>v\<close>, which is also what it returns with a provider that answers \<open>v\<close> at
  once; afterwards the cache is the old cache with one entry added under the key of the
  text (in both runs), although the provider was called three times.
\<close>

theorem embedQuery_retry_third_attempt:
  assumes absent: "cache s (generateCacheKey t) = None"
      and three: "retryAttempts cfg = Some 3"
      and fail1: "embedQueryM p (length (queryLog s)) t = Inl e1"
      and fail2: "embedQueryM p (length (queryLog s) + 1) t = Inl e2"
      and ok3: "embedQueryM p (length (queryLog s) + 2) t = Inr v"
      and ok1: "embedQueryM p' (length (queryLog s)) t = Inr v"
  shows "fst (embedQuery cfg p t s) = Inr v
       \<and> fst (embedQuery cfg p t s) = fst (embedQuery cfg p' t s)
       \<and> cache (snd (embedQuery cfg p t s)) =
           (cache s)(generateCacheKey t \<mapsto>
              \<lparr>embedding = Some v,
               timestamp = now s + 2 * or_default (retryDelay cfg) 1000,
               ttl = cacheTTL\<rparr>)
       \<and> dom (cache (snd (embedQuery cfg p t s))) = insert (generateCacheKey t) (dom (cache s))
       \<and> dom (cache (snd (embedQuery cfg p' t s))) = insert (generateCacheKey t) (dom (cache s))
       \<and> queryLog (snd (embedQuery cfg p t s)) = queryLog s @ [t, t, t]"
proof -
  let ?d = "or_default (retryDelay cfg) 1000"
  let ?s1 = "delay ?d (s\<lparr>queryLog := queryLog s @ [t]\<rparr>)"
  let ?s2 = "delay ?d (?s1\<lparr>queryLog := queryLog ?s1 @ [t]\<rparr>)"
  have lim: "or_default (retryAttempts cfg) 3 = 3" using three by (simp add: or_default_def)
  have r3: "embedWithRetry cfg p t 3 ?s2 = (Inr v, ?s2\<lparr>queryLog := queryLog ?s2 @ [t]\<rparr>)"
    using ok3 by (subst embedWithRetry.simps) (simp add: delay_def)
  have r2: "embedWithRetry cfg p t 2 ?s1 = (Inr v, ?s2\<lparr>queryLog := queryLog ?s2 @ [t]\<rparr>)"
    using fail2 lim r3 by (subst embedWithRetry.simps) (simp add: delay_def)
  have r1: "embedWithRetry cfg p t 1 s = (Inr v, ?s2\<lparr>queryLog := queryLog ?s2 @ [t]\<rparr>)"
    using fail1 lim r2 by (subst embedWithRetry.simps) simp
  have q1: "embedWithRetry cfg p' t 1 s = (Inr v, s\<lparr>queryLog := queryLog s @ [t]\<rparr>)"
    using ok1 by (subst embedWithRetry.simps) simp
  have e: "embedQuery cfg p t s =
      (Inr v, setCache (generateCacheKey t) (Some v) (?s2\<lparr>queryLog := queryLog ?s2 @ [t]\<rparr>))"
    using absent r1 by (simp add: embedQuery_def getFromCache_absent)
  have e': "embedQuery cfg p' t s =
      (Inr v, setCache (generateCacheKey t) (Some v) (s\<lparr>queryLog := queryLog s @ [t]\<rparr>))"
    using absent q1 by (simp add: embedQuery_def getFromCache_absent)
  show ?thesis
    unfolding e e' by (simp add: setCache_def delay_def algebra_simps)
qed

text \<open>The hypotheses of C5 met by a provider that is unavailable twice.\<close>

theorem embedQuery_retry_third_attempt_witness:
  "fst (embedQuery demo_cfg flaky_provider (js ''hello'') demo_state) = Inr [1, 2]
   \<and> fst (embedQuery demo_cfg flaky_provider (js ''hello'') demo_state)
       = fst (embedQuery demo_cfg steady_provider (js ''hello'') demo_state)
   \<and> dom (cache (snd (embedQuery demo_cfg flaky_provider (js ''hello'') demo_state)))
       = {generateCacheKey (js ''hello'')}
   \<and> queryLog (snd (embedQuery demo_cfg flaky_provider (js ''hello'') demo_state))
       = [js ''hello'', js ''hello'', js ''hello'']"
proof -
  have h1: "cache demo_state (generateCacheKey (js ''hello'')) = None"
    by (simp add: demo_state_def)
  have h2: "retryAttempts demo_cfg = Some 3" by (simp add: demo_cfg_def)
  have h3: "embedQueryM flaky_provider (length (queryLog demo_state)) (js ''hello'')
              = Inl (ProviderError ''unavailable'')"
    by (simp add: flaky_provider_def demo_state_def)
  have h4: "embedQueryM flaky_provider (length (queryLog demo_state) + 1) (js ''hello'')
              = Inl (ProviderError ''unavailable'')"
    by (simp add: flaky_provider_def demo_state_def)
  have h5: "embedQueryM flaky_provider (length (queryLog demo_state) + 2) (js ''hello'') = Inr [1, 2]"
    by (simp add: flaky_provider_def demo_state_def)
  have h6: "embedQueryM steady_provider (length (queryLog demo_state)) (js ''hello'') = Inr [1, 2]"
    by (simp add: steady_provider_def)
  have d: "dom (cache demo_state) = {}" "queryLog demo_state = []"
    by (simp_all add: demo_state_def)
  show ?thesis
    using embedQuery_retry_third_attempt [OF h1 h2 h3 h4 h5 h6] d by auto
qed

text \<open>
  C10.  The cache key is not injective: two texts whose UTF-8 encodings agree on the
  first 24 bytes have the same key.  Once \<open>embedQuery\<close> has cached the vector of the
  first text, an \<open>embedQuery\<close> on the second text, made while that entry is within its
  time to live, returns the first text's vector and leaves the state as it is: no call
  to the provider is logged.
\<close>

theorem cache_key_collision:
  assumes prefix: "take 24 (utf8 t1) = take 24 (utf8 t2)"
      and miss: "fst (getFromCache (generateCacheKey t1) s) = None"
      and first: "fst (embedQuery cfg p t1 s) = Inr v1"
      and live: "tnow - now (snd (embedQuery cfg p t1 s)) < cacheTTL"
  shows "generateCacheKey t1 = generateCacheKey t2
       \<and> embedQuery cfg p' t2 ((snd (embedQuery cfg p t1 s))\<lparr>now := tnow\<rparr>)
           = (Inr v1, (snd (embedQuery cfg p t1 s))\<lparr>now := tnow\<rparr>)"
proof -
  have key: "generateCacheKey t1 = generateCacheKey t2"
    using take_eq_imp_base64_prefix_eq [OF prefix] by (simp add: generateCacheKey_def)
  obtain c s0 where g: "getFromCache (generateCacheKey t1) s = (c, s0)" by force
  with miss have c: "c = None" by simp
  obtain r s2 where w: "embedWithRetry cfg p t1 1 s0 = (r, s2)" by force
  from first g c w have r: "r = Inr v1"
    by (auto simp: embedQuery_def split: sum.splits)
  have s1: "snd (embedQuery cfg p t1 s) = setCache (generateCacheKey t1) (Some v1) s2"
    using g c w r by (simp add: embedQuery_def)
  let ?s = "(setCache (generateCacheKey t1) (Some v1) s2)\<lparr>now := tnow\<rparr>"
  have "getFromCache (generateCacheKey t2) ?s = (Some v1, ?s)"
    using live unfolding s1 key by (simp add: getFromCache_def setCache_def)
  then have "embedQuery cfg p' t2 ?s = (Inr v1, ?s)"
    by (simp add: embedQuery_def)
  with key s1 show ?thesis by simp
qed

text \<open>Two distinct texts with a common 24-byte prefix collide.\<close>

theorem cache_key_collision_witness:
  "text_a \<noteq> text_b
   \<and> generateCacheKey text_a = generateCacheKey text_b
   \<and> generateCacheKey text_a = ''embedding:VGhlIHF1aWNrIGJyb3duIGZveCBqdW1w''
   \<and> fst (embedQuery demo_cfg steady_provider text_b
            ((snd (embedQuery demo_cfg (steady_provider\<lparr>embedQueryM := (\<lambda>n t. Inr [7])\<rparr>) text_a demo_state))\<lparr>now := 5000\<rparr>))
       = Inr [7]
   \<and> queryLog (snd (embedQuery demo_cfg steady_provider text_b
            ((snd (embedQuery demo_cfg (steady_provider\<lparr>embedQueryM := (\<lambda>n t. Inr [7])\<rparr>) text_a demo_state))\<lparr>now := 5000\<rparr>)))
       = [text_a]"
proof -
  let ?p = "steady_provider\<lparr>embedQueryM := (\<lambda>n t. Inr [7])\<rparr>"
  have h1: "take 24 (utf8 text_a) = take 24 (utf8 text_b)"
    by (simp add: text_a_def text_b_def js_def)
  have h2: "fst (getFromCache (generateCacheKey text_a) demo_state) = None"
    by (simp add: getFromCache_def demo_state_def)
  have w: "embedWithRetry demo_cfg ?p text_a 1 demo_state
             = (Inr [7], demo_state\<lparr>queryLog := [text_a]\<rparr>)"
    by (subst embedWithRetry.simps) (simp add: demo_state_def)
  have e: "embedQuery demo_cfg ?p text_a demo_state
             = (Inr [7], setCache (generateCacheKey text_a) (Some [7]) (demo_state\<lparr>queryLog := [text_a]\<rparr>))"
    using w by (simp add: embedQuery_def getFromCache_def demo_state_def)
  have h3: "fst (embedQuery demo_cfg ?p text_a demo_state) = Inr [7]"
    by (simp add: e)
  have h4: "5000 - now (snd (embedQuery demo_cfg ?p text_a demo_state)) < cacheTTL"
    unfolding e by (simp add: setCache_def demo_state_def cacheTTL_def)
  have ne: "text_a \<noteq> text_b" by (simp add: text_a_def text_b_def js_def)
  have k: "generateCacheKey text_a = ''embedding:VGhlIHF1aWNrIGJyb3duIGZveCBqdW1w''"
    by (simp add: generateCacheKey_def text_a_def js_def b64_def base64_alphabet_def)
  have "queryLog ((snd (embedQuery demo_cfg ?p text_a demo_state))\<lparr>now := 5000\<rparr>) = [text_a]"
    unfolding e by (simp add: setCache_def)
  with cache_key_collision [OF h1 h2 h3 h4, of steady_provider] ne k
  show ?thesis by simp
qed

















section \<open>Properties of the search code\<close>

lemma set_insert_by: "set (insert_by after x ys) = insert x (set ys)"
  by (induction ys) auto

lemma set_sort_by: "set (sort_by after xs) = set xs"
  by (induction xs) (auto simp: sort_by_def set_insert_by)











lemmas demo_defs =
  demo_graph_def chunk1_def chunk2_def chunk3_def mk_chunk_def demo_query_vector_def
  context_options_def dot_def js_def

lemma row_of_chunk_sel:
  "r_id (row_of_chunk c s) = c_id c" "r_score (row_of_chunk c s) = s"
  by (simp_all add: row_of_chunk_def)

lemma demo_chunk_ids:
  "c_id chunk1 = js ''c1''" "c_id chunk2 = js ''c2''" "c_id chunk3 = js ''c3''"
  by (simp_all add: chunk1_def chunk2_def chunk3_def mk_chunk_def)

lemma demo_vector_search:
  "vector_search dot demo_graph (Inr demo_query_vector) context_options
     = Inr [row_of_chunk chunk1 0.6]"
  by (simp add: vector_search_def searchSimilarVectors_def demo_defs ensureIntegerTopK_def
      Math_floor_def or_real_def sort_by_def row_of_chunk_def Let_def)

lemma demo_adjacent:
  "getAdjacentChunks demo_graph (js ''c1'') 2 = [row_of_chunk chunk2 0.8, row_of_chunk chunk3 0.8]"
  by (simp add: getAdjacentChunks_def chunks_with_id_def demo_defs Math_floor_def
      row_of_chunk_def numeral_2_eq_2 Let_def)

lemma demo_context_search:
  "searchWithContext dot demo_graph (Inr demo_query_vector) context_options
     = Inr [row_of_chunk chunk2 0.8, row_of_chunk chunk3 0.8, row_of_chunk chunk1 0.6]"
proof -
  have w: "real_of_int (Math_floor (or_real (contextWindow context_options) 2)) = 2"
    by (simp add: context_options_def or_real_def Math_floor_def)
  have "searchWithContext dot demo_graph (Inr demo_query_vector) context_options
     = Inr (sort_by (\<lambda>a b. r_score b - r_score a > 0)
              (removeDuplicates [row_of_chunk chunk1 0.6, row_of_chunk chunk2 0.8, row_of_chunk chunk3 0.8]))"
    unfolding searchWithContext_def demo_vector_search
    by (simp add: Let_def w row_of_chunk_sel demo_chunk_ids demo_adjacent)
       (simp add: context_options_def)
  also have "\<dots> = Inr [row_of_chunk chunk2 0.8, row_of_chunk chunk3 0.8, row_of_chunk chunk1 0.6]"
    by (simp add: removeDuplicates_def sort_by_def row_of_chunk_def chunk1_def chunk2_def chunk3_def
        mk_chunk_def js_def)
  finally show ?thesis .
qed



lemma dedup_from_subset: "set (dedup_from seen rs) \<subseteq> set rs"
  by (induction rs arbitrary: seen) auto

lemma set_slice0: "set (slice0 xs e) \<subseteq> set xs"
  by (auto simp: slice0_def Let_def dest: in_set_takeD)




lemma clamp01_range: "clamp01 v = Num x \<Longrightarrow> 0 \<le> x \<and> x \<le> 1"
  by (cases v) auto

lemma normalizeScore_range: "normalizeScore s = Num x \<Longrightarrow> 0 \<le> x \<and> x \<le> 1"
  by (cases s rule: normalizeScore.cases) (auto dest: clamp01_range)

lemma if_eq_cases: "(if c then a else b) = a \<or> (if c then a else b) = b"
  by simp

lemma extend_sel:
  "normalizedScore (sresult.extend r (nresult.fields v)) = v"
  "score (sresult.extend r (nresult.fields v)) = score r"
  "content (sresult.extend r (nresult.fields v)) = content r"
  "source (sresult.extend r (nresult.fields v)) = source r"
  by (simp_all add: sresult.defs nresult.defs)

lemma optimizeResults_unfold:
  "optimizeResults rs limit =
     (if length (filter (\<lambda>r. length (trim (content r)) > 0) rs) = 0 then []
      else slice0
        (filter (\<lambda>r. num_ge (normalizedScore r) 0.01)
          (dedup_from []
            (sort_by (\<lambda>a b. num_gt (num_sub (normalizedScore b) (normalizedScore a)) 0)
              (map (\<lambda>r. sresult.extend r (nresult.fields (normalizeScore (score r))))
                (filter (\<lambda>r. length (trim (content r)) > 0) rs)))))
        limit)"
  unfolding optimizeResults_def Let_def by (rule refl)

lemma in_guarded_slice: "r \<in> set (if c then [] else slice0 F e) \<Longrightarrow> r \<in> set F"
  using set_slice0 [of F e] by (cases c) auto



lemma num_ge_Num: "num_ge v b \<Longrightarrow> \<exists>x. v = Num x \<and> b \<le> x"
  by (cases v) simp_all

lemma optimizeResults_member:
  assumes "r \<in> set (optimizeResults rs limit)"
  shows "\<exists>x. normalizedScore r = Num x \<and> 1 / 100 \<le> x \<and> x \<le> 1
           \<and> normalizedScore r = normalizeScore (score r)"
proof -
  let ?valid = "filter (\<lambda>r. length (trim (content r)) > 0) rs"
  let ?norm = "map (\<lambda>r. sresult.extend r (nresult.fields (normalizeScore (score r)))) ?valid"
  let ?sorted = "sort_by (\<lambda>a b. num_gt (num_sub (normalizedScore b) (normalizedScore a)) 0) ?norm"
  let ?filtered = "filter (\<lambda>r. num_ge (normalizedScore r) 0.01) (dedup_from [] ?sorted)"
  from assms have f: "r \<in> set ?filtered"
    unfolding optimizeResults_unfold by (rule in_guarded_slice)
  then have ge: "num_ge (normalizedScore r) 0.01" and d: "r \<in> set (dedup_from [] ?sorted)"
    unfolding set_filter by blast+
  from d have "r \<in> set ?sorted" using dedup_from_subset by blast
  then have "r \<in> set ?norm" unfolding set_sort_by .
  then obtain r0 where "r = sresult.extend r0 (nresult.fields (normalizeScore (score r0)))"
    unfolding set_map by blast
  then have n: "normalizedScore r = normalizeScore (score r)" by (simp only: extend_sel)
  from num_ge_Num [OF ge] obtain x where x: "normalizedScore r = Num x" "0.01 \<le> x" by blast
  from x(1) n have "normalizeScore (score r) = Num x" by simp
  from normalizeScore_range [OF this] x n show ?thesis by simp
qed



lemma search_cases:
  "search table sim toLower g qv query options = []
   \<or> (\<exists>rs. search table sim toLower g qv query options
            = optimizeResults rs (resultLimit (resolveStrategy table (strategy options)) query))"
  by (auto simp: search_def Let_def split: sum.splits)

text \<open>
  C7.  Every result that \<open>search\<close> returns carries a normalized score in [0,1], which
  is \<open>normalizeScore\<close> of its raw score: a number is clamped into [0,1], a score object
  is resolved to its \<open>low\<close> component (else its \<open>high\<close> component) over 100 and clamped,
  and any other value is mapped to the constant 0.5.  (A \<open>NaN\<close> survives the clamping,
  but then fails the quality filter, so it is never returned.)
\<close>

theorem search_normalized_scores_in_unit_interval:
  "(\<forall>r\<in>set (search table sim toLower g qv query options).
       \<exists>x. normalizedScore r = Num x \<and> 0 \<le> x \<and> x \<le> 1
           \<and> normalizedScore r = normalizeScore (score r))
   \<and> normalizeScore (SNum (Num v)) = Num (max 0 (min 1 v))
   \<and> normalizeScore (SObj (Some (Num l)) h) = Num (max 0 (min 1 (l / 100)))
   \<and> normalizeScore (SObj None (Some (Num u))) = Num (max 0 (min 1 (u / 100)))
   \<and> normalizeScore (SObj None None) = Num 0.5
   \<and> normalizeScore SNull = Num 0.5
   \<and> normalizeScore SUndefined = Num 0.5
   \<and> normalizeScore (SOther b) = Num 0.5"
proof -
  have "\<exists>x. normalizedScore r = Num x \<and> 0 \<le> x \<and> x \<le> 1
           \<and> normalizedScore r = normalizeScore (score r)"
    if "r \<in> set (search table sim toLower g qv query options)" for r
  proof -
    from search_cases [of table sim toLower g qv query options] that
    obtain rs where "r \<in> set (optimizeResults rs
        (resultLimit (resolveStrategy table (strategy options)) query))"
      by auto
    from optimizeResults_member [OF this] show ?thesis by force
  qed
  then show ?thesis by simp
qed


lemma demo_strategy:
  "resolveStrategy searchStrategies (strategy demo_options) = vector_with_context"
  by (simp add: resolveStrategy_def searchStrategies_def demo_options_def)

lemma demo_strategy_fields:
  "useVectorSearch vector_with_context" "\<not> useTextSearch vector_with_context"
  "vectorSearchOptions vector_with_context = Some context_options"
  by (simp_all add: vector_with_context_def context_options_def)

lemma demo_resultLimit: "resultLimit vector_with_context demo_query = 8"
  by (simp add: resultLimit_def vector_with_context_def)

lemma demo_performVectorSearch:
  "performVectorSearch dot demo_graph (Inr demo_query_vector) demo_query (Some context_options)
     = Inr [vector_hit chunk2 0.8, vector_hit chunk3 0.8, vector_hit chunk1 0.6]"
proof -
  have args: "\<lparr>topK = Some (real_of_int (max (Math_floor (or_real (topK context_options) 10)) 8)),
      threshold = Some (or_real (threshold context_options) 0.5),
      includeAdjacentChunks = True,
      contextWindow = Some (real_of_int (Math_floor (or_real (contextWindow context_options) 2)))\<rparr>
     = context_options"
    by (simp add: context_options_def or_real_def Math_floor_def)
  have incl: "includeAdjacentChunks context_options" by (simp add: context_options_def)
  have t: "trim (c_text chunk1) \<noteq> []" "trim (c_text chunk2) \<noteq> []" "trim (c_text chunk3) \<noteq> []"
    by (simp_all add: chunk1_def chunk2_def chunk3_def mk_chunk_def trim_def js_def is_ws_def)
  have f: "c_fileName chunk1 \<noteq> []" "c_fileName chunk2 \<noteq> []" "c_fileName chunk3 \<noteq> []"
    "c_id chunk1 \<noteq> []" "c_id chunk2 \<noteq> []" "c_id chunk3 \<noteq> []"
    "c_document_id chunk1 = []" "c_document_id chunk2 = []" "c_document_id chunk3 = []"
    by (simp_all add: chunk1_def chunk2_def chunk3_def mk_chunk_def js_def)
  show ?thesis
    unfolding performVectorSearch_def Let_def
    by (simp only: option.case incl if_True args demo_context_search sum.case)
       (simp add: row_of_chunk_def vector_hit_def or_string_def t f)
qed

lemma demo_search:
  "search searchStrategies dot lower_ascii demo_graph (Inr demo_query_vector) demo_query demo_options
     = [ranked (vector_hit chunk2 0.8) (Num 0.8), ranked (vector_hit chunk3 0.8) (Num 0.8),
        ranked (vector_hit chunk1 0.6) (Num 0.6)]"
proof -
  have vb: "vectorBranch dot lower_ascii demo_graph (Inr demo_query_vector) vector_with_context
              demo_query demo_options
            = Inr [vector_hit chunk2 0.8, vector_hit chunk3 0.8, vector_hit chunk1 0.6]"
    by (simp add: vectorBranch_def demo_strategy_fields demo_performVectorSearch)
  have tb: "textBranch lower_ascii demo_graph vector_with_context demo_query rs = rs" for rs
    by (simp add: textBranch_def demo_strategy_fields)
  have "optimizeResults [vector_hit chunk2 0.8, vector_hit chunk3 0.8, vector_hit chunk1 0.6] 8
     = [ranked (vector_hit chunk2 0.8) (Num 0.8), ranked (vector_hit chunk3 0.8) (Num 0.8),
        ranked (vector_hit chunk1 0.6) (Num 0.6)]"
    by (simp add: optimizeResults_def Let_def vector_hit_def ranked_def chunk1_def chunk2_def chunk3_def
        mk_chunk_def trim_def js_def is_ws_def sort_by_def dedup_key_def or_string_def slice0_def
        sresult.defs nresult.defs)
  then show ?thesis
    by (simp add: search_def Let_def demo_strategy vb tb demo_resultLimit)
qed



text \<open>C7 on a query with three results.\<close>

theorem search_normalized_scores_in_unit_interval_witness:
  "search searchStrategies dot lower_ascii demo_graph (Inr demo_query_vector) demo_query demo_options
     \<noteq> []
   \<and> (\<exists>x. normalizedScore (hd (search searchStrategies dot lower_ascii demo_graph
                                   (Inr demo_query_vector) demo_query demo_options)) = Num x
          \<and> 0 \<le> x \<and> x \<le> 1)"
proof -
  let ?S = "search searchStrategies dot lower_ascii demo_graph (Inr demo_query_vector)
              demo_query demo_options"
  have ne: "?S \<noteq> []" by (simp add: demo_search)
  then have "hd ?S \<in> set ?S" by (rule hd_in_set)
  with search_normalized_scores_in_unit_interval
         [of searchStrategies dot lower_ascii demo_graph "Inr demo_query_vector" demo_query demo_options]
  have "\<exists>x. normalizedScore (hd ?S) = Num x \<and> 0 \<le> x \<and> x \<le> 1" by blast
  with ne show ?thesis by blast
qed








section \<open>Properties of the graph writer\<close>
























end
